theory Spec2Isabelle
  imports Main
begin

section \<open>Constants and configuration of main.go\<close>

text \<open>
  The constant block of main.go. All of them are Go \<^verbatim>\<open>uint\<close> values far below any
  machine bound, so they are natural numbers here.
\<close>

definition DefaultSize :: nat where "DefaultSize = 180"
definition MaxSize :: nat where "MaxSize = 300"
definition MinSize :: nat where "MinSize = 8"

definition Minutes :: nat where "Minutes = 60"
definition Hours :: nat where "Hours = 60 * Minutes"
definition Days :: nat where "Days = 24 * Hours"
definition TimeoutActualSkin :: nat where "TimeoutActualSkin = 2 * Days"
definition TimeoutFailedFetch :: nat where "TimeoutFailedFetch = 15 * Minutes"

record MinotarConfig =
  DiskCache :: bool
  ErrorLogging :: bool
  AccessLogging :: bool

text \<open>
  Go errors are values of an interface; the code only ever tests them against
  \<^verbatim>\<open>nil\<close>. The constructors name where an error comes from.
\<close>

datatype error = ErrSyntax | ErrRange | PathError string | DecodeError | RemoteError

section \<open>rationalizeSize\<close>

text \<open>
  \<^verbatim>\<open>strconv.ParseUint(inp, 10, 0)\<close> belongs to Go's standard library. Its loop is
  written out here for base 10 and a 64-bit \<^verbatim>\<open>uint\<close>: the empty string and any byte
  that is not a decimal digit give a syntax error, a value that does not fit 64 bits
  gives a range error. The accumulator is a \<^verbatim>\<open>uint64\<close>; its wrap-around is the
  \<open>mod 2 ^ 64\<close> below.
\<close>

definition isDigit :: "char \<Rightarrow> bool" where
  "isDigit c = (48 \<le> (of_char c :: nat) \<and> (of_char c :: nat) \<le> 57)"

definition digitVal :: "char \<Rightarrow> nat" where
  "digitVal c = of_char c - 48"

definition maxVal :: nat where "maxVal = 2 ^ 64 - 1"
definition cutoff :: nat where "cutoff = maxVal div 10 + 1"

fun parseLoop :: "nat \<Rightarrow> string \<Rightarrow> error + nat" where
  "parseLoop n [] = Inr n"
| "parseLoop n (c # cs) =
     (if \<not> isDigit c then Inl ErrSyntax
      else if n \<ge> cutoff then Inl ErrRange
      else let n10 = (n * 10) mod 2 ^ 64;
               n1 = (n10 + digitVal c) mod 2 ^ 64
           in if n1 < n10 \<or> n1 > maxVal then Inl ErrRange
              else parseLoop n1 cs)"

definition ParseUint :: "string \<Rightarrow> error + nat" where
  "ParseUint s = (if s = [] then Inl ErrSyntax else parseLoop 0 s)"

text \<open>
  The source converts the parsed value to \<^verbatim>\<open>uint\<close> before it looks at the error; on a
  64-bit platform the conversion changes nothing, and the value that comes with an error
  is never used.
\<close>

definition rationalizeSize :: "string \<Rightarrow> nat" where
  "rationalizeSize inp =
     (case ParseUint inp of
        Inl err \<Rightarrow> DefaultSize
      | Inr out \<Rightarrow>
          if out > MaxSize then MaxSize
          else if out < MinSize then MinSize
          else out)"

text \<open>The number a string of decimal digits denotes, for stating what is parsed.\<close>

definition decimal :: "string \<Rightarrow> nat" where
  "decimal s = foldl (\<lambda>a c. a * 10 + digitVal c) 0 s"

section \<open>timeBetween\<close>

text \<open>
  A \<^verbatim>\<open>time.Time\<close> is an instant, counted here in nanoseconds as an unbounded integer.
  \<^verbatim>\<open>Time.Sub\<close> returns a \<^verbatim>\<open>Duration\<close>, a signed 64-bit count of nanoseconds, and
  saturates at the largest and smallest duration instead of wrapping.
  Go's \<^verbatim>\<open>/\<close> on integers truncates towards zero.
\<close>

type_synonym Time = int
type_synonym Duration = int

definition maxDuration :: Duration where "maxDuration = 2 ^ 63 - 1"
definition minDuration :: Duration where "minDuration = - (2 ^ 63)"

definition Before :: "Time \<Rightarrow> Time \<Rightarrow> bool" where
  "Before t u = (t < u)"

definition Sub :: "Time \<Rightarrow> Time \<Rightarrow> Duration" where
  "Sub t u =
     (if t - u > maxDuration then maxDuration
      else if t - u < minDuration then minDuration
      else t - u)"

definition quot :: "int \<Rightarrow> int \<Rightarrow> int" where
  "quot a b = (if (a < 0) = (b < 0) then \<bar>a\<bar> div \<bar>b\<bar> else - (\<bar>a\<bar> div \<bar>b\<bar>))"

definition timeBetween :: "Time \<Rightarrow> Time \<Rightarrow> int" where
  "timeBetween timeA timeB =
     (let (timeA, timeB) = (if Before timeB timeA then (timeB, timeA) else (timeA, timeB))
      in quot (Sub timeB timeA) 1000000)"

section \<open>The collaborators of the resolver\<close>

text \<open>
  The types \<^verbatim>\<open>minecraft.User\<close> and \<^verbatim>\<open>minecraft.Skin\<close> come from an imported package.
  main.go reads \<^verbatim>\<open>user.Name\<close> and \<^verbatim>\<open>skin.Image\<close>; the second field of a user is the
  canonical id of the specification. An image is an opaque value of type \<open>'img\<close>.
\<close>

type_synonym bytes = string

record User =
  Name :: string
  CanonicalId :: string

record 'img Skin =
  Image' :: 'img

text \<open>
  What a resolution does to the outside world is recorded in a trace: the two remote
  calls with their arguments, and every attempt to write a file.
\<close>

datatype event = GetSkinCall User | GetUserCall string | WriteFileCall string bytes

text \<open>
  Everything main.go calls but does not define. \<open>files\<close> is the file system
  (\<^verbatim>\<open>os.Open\<close> fails on a path that is not there), \<open>writable\<close> tells whether
  \<^verbatim>\<open>ioutil.WriteFile\<close> succeeds on a path, \<open>Decode\<close> is \<^verbatim>\<open>image.Decode\<close>, \<open>toBytes\<close>
  the conversion \<^verbatim>\<open>[]byte(skin.Image)\<close>. \<open>GetSkin\<close> and \<open>GetUser\<close> are the remote calls
  of the package minecraft; like every Go function of that shape they return a value and
  an error together, and main.go reads the value of some calls whose error it discards.
  \<open>Resize\<close> and \<open>WritePNG\<close> are functions of the program defined outside main.go.
\<close>

record 'img World =
  files :: "string \<rightharpoonup> bytes"
  writable :: "string \<Rightarrow> bool"
  Decode :: "bytes \<Rightarrow> error + 'img"
  toBytes :: "'img \<Rightarrow> bytes"
  GetSkin :: "User \<Rightarrow> 'img Skin \<times> error option"
  GetUser :: "string \<Rightarrow> User \<times> error option"
  Resize :: "nat \<Rightarrow> nat \<Rightarrow> 'img \<Rightarrow> 'img"
  WritePNG :: "'img \<Rightarrow> bytes"
  trace :: "event list"

definition logEvent :: "event \<Rightarrow> 'img World \<Rightarrow> 'img World" where
  "logEvent e w = w\<lparr>trace := trace w @ [e]\<rparr>"

definition skinPath :: "string \<Rightarrow> string" where
  "skinPath username = ''skins/'' @ username @ ''.png''"

section \<open>saveLocalSkin, getLocalSkin, fetchSkin\<close>

text \<open>The result of \<^verbatim>\<open>ioutil.WriteFile\<close> is dropped by the source.\<close>

definition saveLocalSkin :: "string \<Rightarrow> 'img Skin \<Rightarrow> 'img World \<Rightarrow> 'img World" where
  "saveLocalSkin username skin w =
     (let data = toBytes w (Image' skin);
          w' = logEvent (WriteFileCall (skinPath username) data) w
      in if writable w (skinPath username)
         then w'\<lparr>files := (files w)(skinPath username \<mapsto> data)\<rparr>
         else w')"

definition getLocalSkin :: "'img World \<Rightarrow> string \<Rightarrow> error + 'img Skin" where
  "getLocalSkin w username =
     (case files w (skinPath username) of
        None \<Rightarrow> Inl (PathError (skinPath username))
      | Some fs \<Rightarrow>
          (case Decode w fs of
             Inl err \<Rightarrow> Inl err
           | Inr img \<Rightarrow> Inr \<lparr>Image' = img\<rparr>))"

text \<open>
  \<^verbatim>\<open>fetchSkin\<close> returns a skin and nothing else. The model returns with it the world
  after the call and one bit the source does not compute: \<open>substituted\<close> tells that the
  skin comes from one of the two statements
  \<^verbatim>\<open>skin, _ = minecraft.GetSkin(minecraft.User{Name: "char"})\<close>, the outcome the
  specification calls Fallback; otherwise the outcome is Resolved.
\<close>

record 'img Fetched =
  skin :: "'img Skin"
  substituted :: bool
  after :: "'img World"

definition charUser :: User where
  "charUser = \<lparr>Name = ''char'', CanonicalId = []\<rparr>"

text \<open>The statement \<^verbatim>\<open>skin, _ = minecraft.GetSkin(minecraft.User{Name: "char"})\<close>.\<close>

definition serveChar :: "'img World \<Rightarrow> 'img Skin \<times> 'img World" where
  "serveChar w = (fst (GetSkin w charUser), logEvent (GetSkinCall charUser) w)"

text \<open>
  The body of \<^verbatim>\<open>fetchSkin\<close> from the first remote call on. The write to the disk cache
  is the last statement of the branch taken when that first call fails.
\<close>

definition fetchRemote :: "MinotarConfig \<Rightarrow> 'img World \<Rightarrow> string \<Rightarrow> 'img Fetched" where
  "fetchRemote Config w username =
     (let w1 = logEvent (GetSkinCall \<lparr>Name = username, CanonicalId = []\<rparr>) w
      in case GetSkin w \<lparr>Name = username, CanonicalId = []\<rparr> of
           (skin1, None) \<Rightarrow> \<lparr>skin = skin1, substituted = False, after = w1\<rparr>
         | (skin1, Some err1) \<Rightarrow>
             (let w2 = logEvent (GetUserCall username) w1;
                  user = fst (GetUser w username);
                  (skin4, sub, w4) =
                    (case snd (GetUser w username) of
                       Some err2 \<Rightarrow>
                         (let (skin3, w3) = serveChar w2 in (skin3, True, w3))
                     | None \<Rightarrow>
                         (let w3 = logEvent (GetSkinCall user) w2
                          in case GetSkin w user of
                               (skin3, None) \<Rightarrow> (skin3, False, w3)
                             | (skin3, Some err3) \<Rightarrow>
                                 (let (skin3', w3') = serveChar w3 in (skin3', True, w3'))))
              in \<lparr>skin = skin4, substituted = sub,
                   after = (if DiskCache Config then saveLocalSkin (Name user) skin4 w4
                            else w4)\<rparr>))"

definition fetchSkin :: "MinotarConfig \<Rightarrow> 'img World \<Rightarrow> string \<Rightarrow> 'img Fetched" where
  "fetchSkin Config w username =
     (if DiskCache Config then
        (case getLocalSkin w username of
           Inr skin0 \<Rightarrow> \<lparr>skin = skin0, substituted = False, after = w\<rparr>
         | Inl err \<Rightarrow> fetchRemote Config w username)
      else fetchRemote Config w username)"

section \<open>The request pipeline\<close>

text \<open>
  A response as the handler leaves it: the status, the headers in the order they were
  added, and the body. The two headers built with \<^verbatim>\<open>fmt.Sprintf\<close> keep their numbers
  instead of the decimal text: \<open>Timing a b c d\<close> stands for \<^verbatim>\<open>"a+b+c=dms"\<close> and
  \<open>MaxAge n\<close> for \<^verbatim>\<open>"max-age=n"\<close>.
\<close>

datatype hval = Text string | Timing int int int int | MaxAge nat

record Response =
  status :: nat
  headers :: "(string \<times> hval) list"
  body :: bytes

text \<open>The writer net/http hands to a handler: nothing written yet, status 200.\<close>

definition newWriter :: Response where
  "newWriter = \<lparr>status = 200, headers = [], body = []\<rparr>"

definition addHeader :: "string \<Rightarrow> hval \<Rightarrow> Response \<Rightarrow> Response" where
  "addHeader k v rw = rw\<lparr>headers := headers rw @ [(k, v)]\<rparr>"

definition serverErrorPage :: "Response \<Rightarrow> Response" where
  "serverErrorPage rw = rw\<lparr>status := 500, body := body rw @ ''500 internal server error''\<rparr>"

definition addCacheTimeoutHeader :: "Response \<Rightarrow> nat \<Rightarrow> Response" where
  "addCacheTimeoutHeader rw timeout = addHeader ''Cache-Control'' (MaxAge timeout) rw"

text \<open>The four readings of \<^verbatim>\<open>time.Now()\<close> a request makes, in the order it makes them.\<close>

record Clock =
  timeReqStart :: Time
  timeFetch :: Time
  timeProcess :: Time
  timeResize :: Time

text \<open>\<^verbatim>\<open>mux.Vars(r)\<close> is a Go map: a key that is absent reads as the empty string.\<close>

definition varOf :: "(string \<rightharpoonup> string) \<Rightarrow> string \<Rightarrow> string" where
  "varOf vars k = (case vars k of None \<Rightarrow> [] | Some v \<Rightarrow> v)"

definition fetchImageProcessThen ::
  "('img Skin \<Rightarrow> error + 'img) \<Rightarrow> MinotarConfig \<Rightarrow> 'img World \<Rightarrow>
   (string \<rightharpoonup> string) \<Rightarrow> Clock \<Rightarrow> Response \<times> 'img World" where
  "fetchImageProcessThen callback Config w vars clk =
     (let username = varOf vars ''username'';
          size = rationalizeSize (varOf vars ''size'');
          ok = True;
          r = fetchSkin Config w username
      in case callback (skin r) of
           Inl err \<Rightarrow> (serverErrorPage newWriter, after r)
         | Inr img \<Rightarrow>
             (let imgResized = Resize w size size img;
                  rw = addHeader ''Content-Type'' (Text ''image/png'') newWriter;
                  rw = addHeader ''X-Requested'' (Text ''processed'') rw;
                  (rw, timeout) =
                    (if ok then (addHeader ''X-Result'' (Text ''ok'') rw, TimeoutActualSkin)
                     else (addHeader ''X-Result'' (Text ''failed'') rw, TimeoutFailedFetch));
                  rw = addHeader ''X-Timing''
                         (Timing (timeBetween (timeReqStart clk) (timeFetch clk))
                                 (timeBetween (timeFetch clk) (timeProcess clk))
                                 (timeBetween (timeProcess clk) (timeResize clk))
                                 (timeBetween (timeReqStart clk) (timeResize clk))) rw;
                  rw = addCacheTimeoutHeader rw timeout
              in (rw\<lparr>body := body rw @ WritePNG w imgResized\<rparr>, after r)))"

section \<open>A world to run the code in\<close>

text \<open>
  A skin store that knows three names, an accounts service that knows one player under
  another spelling, an empty disk. Images are their own bytes, except that the bytes
  \<open>''corrupt''\<close> do not decode. A failing remote call returns the zero value of its
  type beside the error.
\<close>

definition skinStore :: "User \<Rightarrow> string Skin \<times> error option" where
  "skinStore u =
     (if Name u = ''char'' then (\<lparr>Image' = ''steve''\<rparr>, None)
      else if Name u = ''notch'' then (\<lparr>Image' = ''notch-skin''\<rparr>, None)
      else if Name u = ''Dinnerbone'' then (\<lparr>Image' = ''dinnerbone-skin''\<rparr>, None)
      else (\<lparr>Image' = []\<rparr>, Some RemoteError))"

definition accounts :: "string \<Rightarrow> User \<times> error option" where
  "accounts name =
     (if name = ''dinnerbone''
      then (\<lparr>Name = ''Dinnerbone'', CanonicalId = ''61699b2e''\<rparr>, None)
      else (\<lparr>Name = [], CanonicalId = []\<rparr>, Some RemoteError))"

definition exWorld :: "string World" where
  "exWorld =
     \<lparr>files = Map.empty, writable = (\<lambda>p. True),
      Decode = (\<lambda>bs. if bs = ''corrupt'' then Inl DecodeError else Inr bs),
      toBytes = (\<lambda>img. img),
      GetSkin = skinStore, GetUser = accounts,
      Resize = (\<lambda>width height img. img), WritePNG = (\<lambda>img. img), trace = []\<rparr>"

text \<open>The same world with every remote call failing.\<close>

definition downWorld :: "string World" where
  "downWorld =
     exWorld\<lparr>GetSkin := (\<lambda>u. (\<lparr>Image' = []\<rparr>, Some RemoteError)),
             GetUser := (\<lambda>name. (\<lparr>Name = [], CanonicalId = []\<rparr>, Some RemoteError))\<rparr>"

definition cfgOn :: MinotarConfig where
  "cfgOn = \<lparr>DiskCache = True, ErrorLogging = True, AccessLogging = False\<rparr>"

definition cfgOff :: MinotarConfig where
  "cfgOff = \<lparr>DiskCache = False, ErrorLogging = True, AccessLogging = False\<rparr>"

text \<open>A view derivation that accepts every skin, and one that rejects every skin.\<close>

definition headOf :: "string Skin \<Rightarrow> error + string" where
  "headOf s = Inr (Image' s)"

definition failingView :: "string Skin \<Rightarrow> error + string" where
  "failingView s = Inl DecodeError"

definition exClock :: Clock where
  "exClock = \<lparr>timeReqStart = 0, timeFetch = 600000, timeProcess = 1200000,
              timeResize = 1800000\<rparr>"

section \<open>Size rationalisation\<close>

lemma foldl_decimal_mono: "n \<le> foldl (\<lambda>a c. a * 10 + digitVal c) n s"
proof (induction s arbitrary: n)
  case Nil
  show ?case by simp
next
  case (Cons c cs)
  have "n \<le> n * 10 + digitVal c" by simp
  also have "\<dots> \<le> foldl (\<lambda>a c. a * 10 + digitVal c) (n * 10 + digitVal c) cs"
    by (rule Cons.IH)
  finally show ?case by simp
qed

lemma wrap_lt: "d < K \<Longrightarrow> \<not> a + d < K \<Longrightarrow> a + d - K < (a::nat)"
  by arith

lemma wrap_mod:
  "a < K \<Longrightarrow> d < K \<Longrightarrow> \<not> a + d < K \<Longrightarrow> (a + d) mod K = a + d - (K::nat)"
  by (simp add: mod_if)

text \<open>
  The loop succeeds exactly on digit strings whose value, continued from the
  accumulator, fits 64 bits, and then returns that value.
\<close>

lemma parseLoop_Inr:
  "n < 2 ^ 64 \<Longrightarrow>
   (parseLoop n s = Inr v) =
     (list_all isDigit s \<and> v = foldl (\<lambda>a c. a * 10 + digitVal c) n s \<and> v < 2 ^ 64)"
proof (induction s arbitrary: n)
  case Nil
  then show ?case by auto
next
  case (Cons c cs)
  let ?f = "\<lambda>a c. a * 10 + digitVal c"
  show ?case
  proof (cases "isDigit c")
    case False
    then show ?thesis by simp
  next
    case True
    then have d: "digitVal c \<le> 9" by (auto simp: isDigit_def digitVal_def)
    show ?thesis
    proof (cases "n \<ge> cutoff")
      case True
      then have "n * 10 + digitVal c \<ge> 2 ^ 64" by (simp add: cutoff_def maxVal_def)
      with foldl_decimal_mono [of "n * 10 + digitVal c" cs]
      have "?f n c \<le> foldl ?f (?f n c) cs" "2 ^ 64 \<le> ?f n c" by simp_all
      then have "\<not> foldl ?f (?f n c) cs < 2 ^ 64" by linarith
      with True \<open>isDigit c\<close> show ?thesis by auto
    next
      case False
      then have n10: "n * 10 < 2 ^ 64" "(n * 10) mod 2 ^ 64 = n * 10"
        by (simp_all add: cutoff_def maxVal_def)
      show ?thesis
      proof (cases "n * 10 + digitVal c < 2 ^ 64")
        case True
        then have m: "(n * 10 + digitVal c) mod 2 ^ 64 = n * 10 + digitVal c" by simp
        have "\<not> (n * 10 + digitVal c > maxVal)" using True by (simp add: maxVal_def)
        with False \<open>isDigit c\<close> n10 m Cons.IH [OF True] show ?thesis
          by (simp add: Let_def)
      next
        case False
        with foldl_decimal_mono [of "n * 10 + digitVal c" cs]
        have big: "\<not> foldl ?f (?f n c) cs < 2 ^ 64" by linarith
        from d have d64: "digitVal c < 2 ^ 64" by simp
        from False n10 have "(n * 10 + digitVal c) mod 2 ^ 64 = n * 10 + digitVal c - 2 ^ 64"
          by (intro wrap_mod d64) simp_all
        moreover have "n * 10 + digitVal c - 2 ^ 64 < n * 10"
          using d64 False by (rule wrap_lt)
        ultimately have "(n * 10 + digitVal c) mod 2 ^ 64 < n * 10" by simp
        with \<open>\<not> n \<ge> cutoff\<close> \<open>isDigit c\<close> n10 big show ?thesis
          by (auto simp add: Let_def)
      qed
    qed
  qed
qed

lemma ParseUint_Inr:
  "(ParseUint s = Inr v) =
     (s \<noteq> [] \<and> list_all isDigit s \<and> v = decimal s \<and> v < 2 ^ 64)"
  using parseLoop_Inr [of 0 s v] by (auto simp: ParseUint_def decimal_def)

text \<open>
  C6. The effective size is 180 when the size string is not an unsigned integer the
  parser accepts (empty, a byte that is no digit, or a value beyond 64 bits), 300 when
  the parsed value is above 300, 8 when it is below 8, and the parsed value otherwise.
  The result always lies between 8 and 300, and the function has no error to return.
\<close>

theorem rationalizeSize_clamps:
  "rationalizeSize inp =
     (if inp \<noteq> [] \<and> list_all isDigit inp \<and> decimal inp < 2 ^ 64
      then (if decimal inp > 300 then 300
            else if decimal inp < 8 then 8
            else decimal inp)
      else 180)
   \<and> 8 \<le> rationalizeSize inp \<and> rationalizeSize inp \<le> 300"
proof (cases "ParseUint inp")
  case (Inl err)
  have "\<not> (inp \<noteq> [] \<and> list_all isDigit inp \<and> decimal inp < 2 ^ 64)"
  proof
    assume "inp \<noteq> [] \<and> list_all isDigit inp \<and> decimal inp < 2 ^ 64"
    then have "ParseUint inp = Inr (decimal inp)" by (simp add: ParseUint_Inr)
    with Inl show False by simp
  qed
  moreover from Inl have "rationalizeSize inp = 180"
    by (simp add: rationalizeSize_def DefaultSize_def)
  ultimately show ?thesis by (simp only: if_False) simp
next
  case (Inr out)
  then have p: "inp \<noteq> [] \<and> list_all isDigit inp \<and> decimal inp < 2 ^ 64"
    and "out = decimal inp"
    by (simp_all add: ParseUint_Inr)
  with Inr have "rationalizeSize inp =
      (if decimal inp > 300 then 300 else if decimal inp < 8 then 8 else decimal inp)"
    by (simp add: rationalizeSize_def MaxSize_def MinSize_def)
  with p show ?thesis by (simp only: if_True) simp
qed

theorem rationalizeSize_clamps_witness:
  "rationalizeSize ''64'' = 64 \<and> rationalizeSize ''5000'' = 300 \<and> rationalizeSize ''3'' = 8
   \<and> rationalizeSize [] = 180 \<and> rationalizeSize ''6x'' = 180
   \<and> rationalizeSize ''18446744073709551616'' = 180"
  using rationalizeSize_clamps [of "''64''"] rationalizeSize_clamps [of "''5000''"]
    rationalizeSize_clamps [of "''3''"] rationalizeSize_clamps [of "[]"]
    rationalizeSize_clamps [of "''6x''"] rationalizeSize_clamps [of "''18446744073709551616''"]
  by (simp add: decimal_def isDigit_def digitVal_def)

section \<open>Properties of timeBetween\<close>

lemma quot_nonneg: "0 \<le> a \<Longrightarrow> quot a 1000000 = a div 1000000"
  by (simp add: quot_def)

lemma Sub_later_nonneg: "u \<le> t \<Longrightarrow> 0 \<le> Sub t u"
  by (simp add: Sub_def maxDuration_def minDuration_def)

lemma timeBetween_later:
  "a \<le> b \<Longrightarrow> timeBetween a b = Sub b a div 1000000"
  by (simp add: timeBetween_def Before_def quot_nonneg Sub_later_nonneg)

lemma timeBetween_earlier:
  "b \<le> a \<Longrightarrow> timeBetween a b = Sub a b div 1000000"
  by (cases "a = b")
     (simp_all add: timeBetween_def Before_def quot_nonneg Sub_later_nonneg)

text \<open>
  C10. The millisecond difference does not depend on the order of its two
  timestamps, and it is never negative.
\<close>

theorem timeBetween_symmetric_nonneg:
  "timeBetween a b = timeBetween b a \<and> 0 \<le> timeBetween a b"
proof (cases "a \<le> b")
  case True
  then have "timeBetween a b = Sub b a div 1000000"
    and "timeBetween b a = Sub b a div 1000000"
    by (simp_all add: timeBetween_later timeBetween_earlier)
  moreover have "0 \<le> Sub b a div 1000000"
    using True by (simp add: Sub_later_nonneg pos_imp_zdiv_nonneg_iff)
  ultimately show ?thesis by simp
next
  case False
  then have le: "b \<le> a" by simp
  then have "timeBetween a b = Sub a b div 1000000"
    and "timeBetween b a = Sub a b div 1000000"
    by (simp_all add: timeBetween_later timeBetween_earlier)
  moreover have "0 \<le> Sub a b div 1000000"
    using le by (simp add: Sub_later_nonneg pos_imp_zdiv_nonneg_iff)
  ultimately show ?thesis by simp
qed

text \<open>
  Within the range of a duration the difference is exact, and three truncated
  quotients fall short of the truncated quotient of the sum by at most two.
\<close>

lemma timeBetween_exact:
  "a \<le> b \<Longrightarrow> b - a \<le> maxDuration \<Longrightarrow> timeBetween a b = (b - a) div 1000000"
  by (simp add: timeBetween_later Sub_def minDuration_def)

lemma floor_sum3:
  fixes x y z :: int
  shows "x div 1000000 + y div 1000000 + z div 1000000 \<le> (x + y + z) div 1000000
     \<and> (x + y + z) div 1000000 \<le> x div 1000000 + y div 1000000 + z div 1000000 + 2"
  by arith

lemma timing_near_additive:
  assumes "t0 \<le> t1" "t1 \<le> t2" "t2 \<le> t3" "t3 - t0 \<le> maxDuration"
  shows "timeBetween t0 t1 + timeBetween t1 t2 + timeBetween t2 t3 \<le> timeBetween t0 t3"
    and "timeBetween t0 t3 \<le> timeBetween t0 t1 + timeBetween t1 t2 + timeBetween t2 t3 + 2"
proof -
  from assms have e: "timeBetween t0 t1 = (t1 - t0) div 1000000"
    "timeBetween t1 t2 = (t2 - t1) div 1000000"
    "timeBetween t2 t3 = (t3 - t2) div 1000000"
    "timeBetween t0 t3 = (t3 - t0) div 1000000"
    by (simp_all add: timeBetween_exact)
  have s: "(t1 - t0) + (t2 - t1) + (t3 - t2) = t3 - t0" by simp
  from floor_sum3 [of "t1 - t0" "t2 - t1" "t3 - t2"] s e
  show "timeBetween t0 t1 + timeBetween t1 t2 + timeBetween t2 t3 \<le> timeBetween t0 t3"
    and "timeBetween t0 t3 \<le> timeBetween t0 t1 + timeBetween t1 t2 + timeBetween t2 t3 + 2"
    by simp_all
qed

section \<open>The resolver\<close>

lemma trace_logEvent: "trace (logEvent e w) = trace w @ [e]"
  by (simp add: logEvent_def)

lemma trace_saveLocalSkin:
  "trace (saveLocalSkin username s w) =
     trace w @ [WriteFileCall (skinPath username) (toBytes w (Image' s))]"
  by (simp add: saveLocalSkin_def logEvent_def Let_def)

lemma fetchRemote_first_call:
  "\<exists>rest. trace (after (fetchRemote Config w username)) =
     trace w @ GetSkinCall \<lparr>Name = username, CanonicalId = []\<rparr> # rest"
  by (auto simp add: fetchRemote_def serveChar_def Let_def logEvent_def saveLocalSkin_def
      split: prod.split option.split)

lemma fetchRemote_ignores_files:
  "skin (fetchRemote Config (w\<lparr>files := f\<rparr>) username) = skin (fetchRemote Config w username)"
  "substituted (fetchRemote Config (w\<lparr>files := f\<rparr>) username) =
     substituted (fetchRemote Config w username)"
  "trace (after (fetchRemote Config (w\<lparr>files := f\<rparr>) username)) =
     trace (after (fetchRemote Config w username))"
  by (auto simp add: fetchRemote_def serveChar_def Let_def logEvent_def saveLocalSkin_def
      split: prod.split option.split)

text \<open>
  C4. With the disk cache enabled and an entry for the identifier that decodes,
  the resolver returns the decoded skin at once, as a resolved one: the world after the
  call is the world before it, so no remote call was made (and no file written).
\<close>

theorem fetchSkin_cache_hit:
  assumes "DiskCache Config"
    and "files w (skinPath username) = Some fs"
    and "Decode w fs = Inr img"
  shows "fetchSkin Config w username =
           \<lparr>skin = \<lparr>Image' = img\<rparr>, substituted = False, after = w\<rparr>
         \<and> trace (after (fetchSkin Config w username)) = trace w"
  using assms by (simp add: fetchSkin_def getLocalSkin_def)

theorem fetchSkin_cache_hit_witness:
  "DiskCache cfgOn
   \<and> files (exWorld\<lparr>files := [skinPath ''notch'' \<mapsto> ''cached-skin'']\<rparr>) (skinPath ''notch'')
       = Some ''cached-skin''
   \<and> Decode (exWorld\<lparr>files := [skinPath ''notch'' \<mapsto> ''cached-skin'']\<rparr>) ''cached-skin''
       = Inr ''cached-skin''
   \<and> skin (fetchSkin cfgOn (exWorld\<lparr>files := [skinPath ''notch'' \<mapsto> ''cached-skin'']\<rparr>) ''notch'')
       = \<lparr>Image' = ''cached-skin''\<rparr>
   \<and> trace (after (fetchSkin cfgOn
        (exWorld\<lparr>files := [skinPath ''notch'' \<mapsto> ''cached-skin'']\<rparr>) ''notch'')) = []"
proof -
  let ?w = "exWorld\<lparr>files := [skinPath ''notch'' \<mapsto> ''cached-skin'']\<rparr>"
  have h1: "DiskCache cfgOn" by (simp add: cfgOn_def)
  have h2: "files ?w (skinPath ''notch'') = Some ''cached-skin''" by simp
  have h3: "Decode ?w ''cached-skin'' = Inr ''cached-skin''" by (simp add: exWorld_def)
  have h4: "trace ?w = []" by (simp add: exWorld_def)
  from fetchSkin_cache_hit [OF h1 h2 h3] h1 h2 h3 h4 show ?thesis by simp
qed

text \<open>
  C7. With the disk cache enabled and an entry for the identifier whose bytes do not
  decode, the resolver behaves as on a cache miss: it returns the skin, the outcome and
  the trace it would return if the entry were absent, and the first thing it does is
  the skin-store fetch for the identifier.
\<close>

theorem fetchSkin_undecodable_is_miss:
  assumes "DiskCache Config"
    and "files w (skinPath username) = Some fs"
    and "Decode w fs = Inl err"
  shows "skin (fetchSkin Config w username) =
           skin (fetchSkin Config (w\<lparr>files := (files w)(skinPath username := None)\<rparr>) username)
       \<and> substituted (fetchSkin Config w username) =
           substituted (fetchSkin Config (w\<lparr>files := (files w)(skinPath username := None)\<rparr>) username)
       \<and> trace (after (fetchSkin Config w username)) =
           trace (after (fetchSkin Config (w\<lparr>files := (files w)(skinPath username := None)\<rparr>) username))
       \<and> (\<exists>rest. trace (after (fetchSkin Config w username)) =
             trace w @ GetSkinCall \<lparr>Name = username, CanonicalId = []\<rparr> # rest)"
proof -
  let ?w' = "w\<lparr>files := (files w)(skinPath username := None)\<rparr>"
  from assms have a: "fetchSkin Config w username = fetchRemote Config w username"
    by (simp add: fetchSkin_def getLocalSkin_def)
  from assms have b: "fetchSkin Config ?w' username = fetchRemote Config ?w' username"
    by (simp add: fetchSkin_def getLocalSkin_def)
  show ?thesis
    unfolding a b using fetchRemote_first_call [of Config w username]
    by (simp add: fetchRemote_ignores_files)
qed

theorem fetchSkin_undecodable_is_miss_witness:
  "DiskCache cfgOn
   \<and> files (exWorld\<lparr>files := [skinPath ''notch'' \<mapsto> ''corrupt'']\<rparr>) (skinPath ''notch'')
       = Some ''corrupt''
   \<and> Decode (exWorld\<lparr>files := [skinPath ''notch'' \<mapsto> ''corrupt'']\<rparr>) ''corrupt''
       = Inl DecodeError
   \<and> skin (fetchSkin cfgOn (exWorld\<lparr>files := [skinPath ''notch'' \<mapsto> ''corrupt'']\<rparr>) ''notch'')
       = \<lparr>Image' = ''notch-skin''\<rparr>
   \<and> trace (after (fetchSkin cfgOn (exWorld\<lparr>files := [skinPath ''notch'' \<mapsto> ''corrupt'']\<rparr>)
        ''notch'')) = [GetSkinCall \<lparr>Name = ''notch'', CanonicalId = []\<rparr>]"
proof -
  let ?w = "exWorld\<lparr>files := [skinPath ''notch'' \<mapsto> ''corrupt'']\<rparr>"
  have h1: "DiskCache cfgOn" by (simp add: cfgOn_def)
  have h2: "files ?w (skinPath ''notch'') = Some ''corrupt''" by simp
  have h3: "Decode ?w ''corrupt'' = Inl DecodeError" by (simp add: exWorld_def)
  have e: "?w\<lparr>files := (files ?w)(skinPath ''notch'' := None)\<rparr> = exWorld"
    by (simp add: exWorld_def)
  have s: "skin (fetchSkin cfgOn exWorld ''notch'') = \<lparr>Image' = ''notch-skin''\<rparr>"
    "trace (after (fetchSkin cfgOn exWorld ''notch'')) =
       [GetSkinCall \<lparr>Name = ''notch'', CanonicalId = []\<rparr>]"
    by (simp_all add: fetchSkin_def fetchRemote_def getLocalSkin_def logEvent_def skinPath_def
        exWorld_def cfgOn_def skinStore_def)
  from fetchSkin_undecodable_is_miss [OF h1 h2 h3] h1 h2 h3 show ?thesis
    unfolding e s by simp
qed

section \<open>Running the resolver\<close>

lemmas run_defs = fetchSkin_def fetchRemote_def getLocalSkin_def saveLocalSkin_def
  serveChar_def logEvent_def skinPath_def charUser_def exWorld_def downWorld_def
  cfgOn_def cfgOff_def skinStore_def accounts_def Let_def

text \<open>
  C2. The claim asks that a skin resolved by a remote fetch is written to the disk
  cache, so that the next resolution of the identifier is a cache hit. The code at an
  identifier the skin store knows, with the disk cache enabled and empty: the first
  remote call succeeds, no file is written, and a second resolution of the same
  identifier makes the same remote call again.
\<close>

theorem fetchSkin_direct_fetch_not_cached:
  "\<not> substituted (fetchSkin cfgOn exWorld ''notch'')
   \<and> skin (fetchSkin cfgOn exWorld ''notch'') = \<lparr>Image' = ''notch-skin''\<rparr>
   \<and> trace (after (fetchSkin cfgOn exWorld ''notch'')) =
       [GetSkinCall \<lparr>Name = ''notch'', CanonicalId = []\<rparr>]
   \<and> files (after (fetchSkin cfgOn exWorld ''notch'')) (skinPath ''notch'') = None
   \<and> trace (after (fetchSkin cfgOn (after (fetchSkin cfgOn exWorld ''notch'')) ''notch'')) =
       [GetSkinCall \<lparr>Name = ''notch'', CanonicalId = []\<rparr>,
        GetSkinCall \<lparr>Name = ''notch'', CanonicalId = []\<rparr>]"
  by (simp add: run_defs)

text \<open>
  C3. The claim asks that an identifier with no cache entry, no skin-store record and
  no identity record gets the default skin as a fallback and that nothing is written to
  the cache. The code at such an identifier with the disk cache enabled: it falls back
  to the skin fetched for the name "char", and then writes that skin to the cache under
  the name of the user value that came with the failed identity lookup.
\<close>

theorem fetchSkin_fallback_writes_cache:
  "substituted (fetchSkin cfgOn exWorld ''ghost'')
   \<and> skin (fetchSkin cfgOn exWorld ''ghost'') = \<lparr>Image' = ''steve''\<rparr>
   \<and> files exWorld (skinPath ''ghost'') = None
   \<and> snd (GetSkin exWorld \<lparr>Name = ''ghost'', CanonicalId = []\<rparr>) = Some RemoteError
   \<and> snd (GetUser exWorld ''ghost'') = Some RemoteError
   \<and> trace (after (fetchSkin cfgOn exWorld ''ghost'')) =
       [GetSkinCall \<lparr>Name = ''ghost'', CanonicalId = []\<rparr>, GetUserCall ''ghost'',
        GetSkinCall \<lparr>Name = ''char'', CanonicalId = []\<rparr>,
        WriteFileCall ''skins/.png'' ''steve'']
   \<and> files (after (fetchSkin cfgOn exWorld ''ghost'')) ''skins/.png'' = Some ''steve''"
  by (simp add: run_defs)

text \<open>
  Without the disk cache no file changes; with it, every resolution whose first remote
  call fails ends with a write.
\<close>

lemma fetchSkin_no_cache_no_write:
  "\<not> DiskCache Config \<Longrightarrow> files (after (fetchSkin Config w username)) = files w"
  by (auto simp add: fetchSkin_def fetchRemote_def serveChar_def logEvent_def Let_def
      split: prod.split option.split)

lemma fetchSkin_lookup_path_writes:
  "DiskCache Config \<Longrightarrow> getLocalSkin w username = Inl e \<Longrightarrow>
   snd (GetSkin w \<lparr>Name = username, CanonicalId = []\<rparr>) = Some e' \<Longrightarrow>
   \<exists>data. last (trace (after (fetchSkin Config w username))) =
     WriteFileCall (skinPath (Name (fst (GetUser w username)))) data"
  by (auto simp add: fetchSkin_def fetchRemote_def serveChar_def logEvent_def Let_def
      saveLocalSkin_def split: prod.split option.split)

text \<open>
  C5, as amended. Whatever the cache and the remote calls do, the resolver returns a
  skin and no error. Either the skin is one that the cache, the skin-store fetch for the
  identifier or the skin-store fetch for its resolved user delivered without an error
  (Resolved), or it is the value the skin-store fetch for the name "char" returned,
  whose error the code discards (Fallback).
\<close>

theorem fetchSkin_absorbs_failures:
  "(if substituted (fetchSkin Config w username)
    then skin (fetchSkin Config w username) = fst (GetSkin w charUser)
    else (DiskCache Config \<and> getLocalSkin w username = Inr (skin (fetchSkin Config w username)))
       \<or> GetSkin w \<lparr>Name = username, CanonicalId = []\<rparr> =
            (skin (fetchSkin Config w username), None)
       \<or> (snd (GetUser w username) = None
           \<and> GetSkin w (fst (GetUser w username)) =
               (skin (fetchSkin Config w username), None)))"
  by (auto simp add: fetchSkin_def fetchRemote_def serveChar_def logEvent_def Let_def
      split: prod.split option.split sum.split)

theorem fetchSkin_absorbs_failures_witness:
  "substituted (fetchSkin cfgOff downWorld ''ghost'')
   \<and> skin (fetchSkin cfgOff downWorld ''ghost'') = \<lparr>Image' = []\<rparr>
   \<and> \<not> substituted (fetchSkin cfgOn exWorld ''dinnerbone'')
   \<and> skin (fetchSkin cfgOn exWorld ''dinnerbone'') = \<lparr>Image' = ''dinnerbone-skin''\<rparr>"
  using fetchSkin_absorbs_failures [of cfgOff downWorld "''ghost''"]
    fetchSkin_absorbs_failures [of cfgOn exWorld "''dinnerbone''"]
  by (simp add: run_defs)

text \<open>
  C5, as stated, fails: the fallback is not one fixed default skin. The identifier is
  unknown in both worlds; where the skin store serves "char" the fallback is that skin,
  and where every remote call fails the fallback is the empty value that came with the
  error of the fetch for "char".
\<close>

theorem fetchSkin_default_not_fixed:
  "substituted (fetchSkin cfgOff exWorld ''ghost'')
   \<and> skin (fetchSkin cfgOff exWorld ''ghost'') = \<lparr>Image' = ''steve''\<rparr>
   \<and> substituted (fetchSkin cfgOff downWorld ''ghost'')
   \<and> snd (GetSkin downWorld charUser) = Some RemoteError
   \<and> skin (fetchSkin cfgOff downWorld ''ghost'') = \<lparr>Image' = []\<rparr>
   \<and> skin (fetchSkin cfgOff downWorld ''ghost'') \<noteq> skin (fetchSkin cfgOff exWorld ''ghost'')"
  by (simp add: run_defs)

section \<open>Properties of the request pipeline\<close>

text \<open>The two responses a request can end with.\<close>

lemma pipeline_error:
  "callback (skin (fetchSkin Config w (varOf vars ''username''))) = Inl err \<Longrightarrow>
   fst (fetchImageProcessThen callback Config w vars clk) =
     \<lparr>status = 500, headers = [], body = ''500 internal server error''\<rparr>"
  by (simp add: fetchImageProcessThen_def Let_def serverErrorPage_def newWriter_def)

lemma pipeline_processed:
  "callback (skin (fetchSkin Config w (varOf vars ''username''))) = Inr img \<Longrightarrow>
   fst (fetchImageProcessThen callback Config w vars clk) =
     \<lparr>status = 200,
      headers =
        [(''Content-Type'', Text ''image/png''),
         (''X-Requested'', Text ''processed''),
         (''X-Result'', Text ''ok''),
         (''X-Timing'',
            Timing (timeBetween (timeReqStart clk) (timeFetch clk))
                   (timeBetween (timeFetch clk) (timeProcess clk))
                   (timeBetween (timeProcess clk) (timeResize clk))
                   (timeBetween (timeReqStart clk) (timeResize clk))),
         (''Cache-Control'', MaxAge TimeoutActualSkin)],
      body = WritePNG w (Resize w (rationalizeSize (varOf vars ''size''))
               (rationalizeSize (varOf vars ''size'')) img)\<rparr>"
  by (simp add: fetchImageProcessThen_def Let_def newWriter_def addHeader_def
      addCacheTimeoutHeader_def)

lemma TimeoutActualSkin_value: "TimeoutActualSkin = 172800"
  by (simp add: TimeoutActualSkin_def Days_def Hours_def Minutes_def)

lemma TimeoutFailedFetch_value: "TimeoutFailedFetch = 900"
  by (simp add: TimeoutFailedFetch_def Minutes_def)

lemma ghost_falls_back:
  "skin (fetchSkin cfgOff exWorld ''ghost'') = \<lparr>Image' = ''steve''\<rparr>"
  "substituted (fetchSkin cfgOff exWorld ''ghost'')"
  by (simp_all add: run_defs)

text \<open>
  C1. The claim asks for the result indicator \<open>failed\<close> and the short cache lifetime
  when the resolution fell back. The code at an unknown identifier: the resolver falls
  back, and the response says \<open>ok\<close> with the long lifetime of 172800 seconds, because
  the variable \<open>ok\<close> is never set to false.
\<close>

theorem fetchImageProcessThen_fallback_says_ok:
  "substituted (fetchSkin cfgOff exWorld (varOf [''username'' \<mapsto> ''ghost''] ''username''))
   \<and> map_of (headers (fst (fetchImageProcessThen headOf cfgOff exWorld
        [''username'' \<mapsto> ''ghost''] exClock))) ''X-Result'' = Some (Text ''ok'')
   \<and> map_of (headers (fst (fetchImageProcessThen headOf cfgOff exWorld
        [''username'' \<mapsto> ''ghost''] exClock))) ''Cache-Control'' = Some (MaxAge 172800)"
proof -
  have u: "varOf [''username'' \<mapsto> ''ghost''] ''username'' = ''ghost''"
    by (simp add: varOf_def)
  have c: "headOf (skin (fetchSkin cfgOff exWorld
      (varOf [''username'' \<mapsto> ''ghost''] ''username''))) = Inr ''steve''"
    by (simp add: u ghost_falls_back headOf_def)
  show ?thesis
    by (simp add: pipeline_processed [where callback = headOf, OF c] u ghost_falls_back
        TimeoutActualSkin_value)
qed

text \<open>
  C9. The response is the server-error page exactly when the view derivation returns an
  error on the resolved skin; otherwise the request ends with status 200 and the encoded
  resized image as its body.
\<close>

theorem fetchImageProcessThen_derivation_error:
  "(status (fst (fetchImageProcessThen callback Config w vars clk)) = 500)
     = (\<exists>err. callback (skin (fetchSkin Config w (varOf vars ''username''))) = Inl err)
   \<and> (case callback (skin (fetchSkin Config w (varOf vars ''username''))) of
        Inl err \<Rightarrow>
          fst (fetchImageProcessThen callback Config w vars clk) =
            \<lparr>status = 500, headers = [], body = ''500 internal server error''\<rparr>
      | Inr img \<Rightarrow>
          status (fst (fetchImageProcessThen callback Config w vars clk)) = 200
          \<and> body (fst (fetchImageProcessThen callback Config w vars clk)) =
              WritePNG w (Resize w (rationalizeSize (varOf vars ''size''))
                (rationalizeSize (varOf vars ''size'')) img))"
proof (cases "callback (skin (fetchSkin Config w (varOf vars ''username'')))")
  case (Inl err)
  then show ?thesis by (simp add: pipeline_error [where callback = callback, OF Inl])
next
  case (Inr img)
  then show ?thesis by (simp add: pipeline_processed [where callback = callback, OF Inr])
qed

theorem fetchImageProcessThen_derivation_error_witness:
  "fst (fetchImageProcessThen failingView cfgOff exWorld [''username'' \<mapsto> ''notch''] exClock)
     = \<lparr>status = 500, headers = [], body = ''500 internal server error''\<rparr>
   \<and> status (fst (fetchImageProcessThen headOf cfgOff exWorld
        [''username'' \<mapsto> ''notch''] exClock)) = 200"
  using fetchImageProcessThen_derivation_error
      [of failingView cfgOff exWorld "[''username'' \<mapsto> ''notch'']" exClock]
    fetchImageProcessThen_derivation_error
      [of headOf cfgOff exWorld "[''username'' \<mapsto> ''notch'']" exClock]
  by (simp add: failingView_def headOf_def)

text \<open>
  C8, as stated, fails: each duration is truncated to milliseconds on its own. Three
  steps of 0.6 ms are reported as \<open>0+0+0=1ms\<close>.
\<close>

theorem timing_not_additive:
  "map_of (headers (fst (fetchImageProcessThen headOf cfgOff exWorld
      [''username'' \<mapsto> ''notch''] exClock))) ''X-Timing'' = Some (Timing 0 0 0 1)
   \<and> (0::int) + 0 + 0 \<noteq> 1"
proof -
  have c: "headOf (skin (fetchSkin cfgOff exWorld
      (varOf [''username'' \<mapsto> ''notch''] ''username''))) =
        Inr (Image' (skin (fetchSkin cfgOff exWorld
          (varOf [''username'' \<mapsto> ''notch''] ''username''))))"
    by (simp add: headOf_def)
  show ?thesis
    by (simp add: pipeline_processed [where callback = headOf, OF c] exClock_def timeBetween_def Before_def Sub_def
        quot_def maxDuration_def minDuration_def)
qed

text \<open>
  C8, as amended. For a processed request whose four timestamps do not decrease and span
  no more than the largest duration, each number in the X-Timing header is the difference
  of its two timestamps in nanoseconds, truncated to whole milliseconds; the three
  components add up to at most the reported total, and to no less than the total minus
  two milliseconds.
\<close>

theorem timing_within_two_ms:
  assumes "callback (skin (fetchSkin Config w (varOf vars ''username''))) = Inr img"
    and "timeReqStart clk \<le> timeFetch clk"
    and "timeFetch clk \<le> timeProcess clk"
    and "timeProcess clk \<le> timeResize clk"
    and "timeResize clk - timeReqStart clk \<le> maxDuration"
  shows "\<exists>fetchMs processMs resizeMs totalMs.
           map_of (headers (fst (fetchImageProcessThen callback Config w vars clk))) ''X-Timing''
             = Some (Timing fetchMs processMs resizeMs totalMs)
           \<and> fetchMs = (timeFetch clk - timeReqStart clk) div 1000000
           \<and> processMs = (timeProcess clk - timeFetch clk) div 1000000
           \<and> resizeMs = (timeResize clk - timeProcess clk) div 1000000
           \<and> totalMs = (timeResize clk - timeReqStart clk) div 1000000
           \<and> fetchMs + processMs + resizeMs \<le> totalMs
           \<and> totalMs \<le> fetchMs + processMs + resizeMs + 2"
proof -
  from assms(2-5) have e:
    "timeBetween (timeReqStart clk) (timeFetch clk)
       = (timeFetch clk - timeReqStart clk) div 1000000"
    "timeBetween (timeFetch clk) (timeProcess clk)
       = (timeProcess clk - timeFetch clk) div 1000000"
    "timeBetween (timeProcess clk) (timeResize clk)
       = (timeResize clk - timeProcess clk) div 1000000"
    "timeBetween (timeReqStart clk) (timeResize clk)
       = (timeResize clk - timeReqStart clk) div 1000000"
    by (simp_all add: timeBetween_exact)
  from timing_near_additive [OF assms(2-5)] show ?thesis
    by (simp add: pipeline_processed [where callback = callback, OF assms(1)] e)
qed

theorem timing_within_two_ms_witness:
  "headOf (skin (fetchSkin cfgOff exWorld (varOf [''username'' \<mapsto> ''notch''] ''username'')))
     = Inr ''notch-skin''
   \<and> timeReqStart exClock \<le> timeFetch exClock
   \<and> timeFetch exClock \<le> timeProcess exClock
   \<and> timeProcess exClock \<le> timeResize exClock
   \<and> timeResize exClock - timeReqStart exClock \<le> maxDuration
   \<and> map_of (headers (fst (fetchImageProcessThen headOf cfgOff exWorld
         [''username'' \<mapsto> ''notch''] exClock))) ''X-Timing''
       = Some (Timing (600000 div 1000000) (600000 div 1000000) (600000 div 1000000)
                (1800000 div 1000000))
   \<and> (600000::int) div 1000000 + 600000 div 1000000 + 600000 div 1000000
       \<le> 1800000 div 1000000
   \<and> (1800000::int) div 1000000
       \<le> 600000 div 1000000 + 600000 div 1000000 + 600000 div 1000000 + 2"
proof -
  have h1: "headOf (skin (fetchSkin cfgOff exWorld
      (varOf [''username'' \<mapsto> ''notch''] ''username''))) = Inr ''notch-skin''"
    by (simp add: headOf_def varOf_def run_defs)
  have h2: "timeReqStart exClock \<le> timeFetch exClock" by (simp add: exClock_def)
  have h3: "timeFetch exClock \<le> timeProcess exClock" by (simp add: exClock_def)
  have h4: "timeProcess exClock \<le> timeResize exClock" by (simp add: exClock_def)
  have h5: "timeResize exClock - timeReqStart exClock \<le> maxDuration"
    by (simp add: exClock_def maxDuration_def)
  from timing_within_two_ms [where callback = headOf, OF h1 h2 h3 h4 h5]
  have "map_of (headers (fst (fetchImageProcessThen headOf cfgOff exWorld
         [''username'' \<mapsto> ''notch''] exClock))) ''X-Timing''
       = Some (Timing (600000 div 1000000) (600000 div 1000000) (600000 div 1000000)
                (1800000 div 1000000))"
    by (auto simp add: exClock_def)
  with h1 h2 h3 h4 h5 show ?thesis by simp
qed

end
